theory Spec2Isabelle
  imports Main "HOL-Library.List_Lexorder" "HOL-Library.Multiset"
begin

section \<open>Python strings\<close>

text \<open>
  A Python \<open>str\<close> is a sequence of Unicode code points; it is modelled as the list of those
  code points, so that \<open>name[:1]\<close> is the first code point and the glyphs of \<open>ICON_MAP\<close>
  (private-use and emoji code points) are values like any other. \<open>str\<close> writes an ASCII
  literal. Comparison of two strings is Python's: lexicographic on the code points, a proper
  prefix being smaller (the order of \<open>HOL-Library.List_Lexorder\<close>).

  \<open>str.lower()\<close> and \<open>str.upper()\<close> follow the Unicode database of the interpreter and are
  fields of the environment below. \<open>isspace\<close> is the set of code points \<open>str.strip()\<close> and
  \<open>str.split()\<close> treat as whitespace.
\<close>

type_synonym pystr = "nat list"

definition str :: "string \<Rightarrow> pystr" where
  "str s = map of_char s"

definition isspace :: "nat \<Rightarrow> bool" where
  "isspace c \<longleftrightarrow>
     (9 \<le> c \<and> c \<le> 13) \<or> (28 \<le> c \<and> c \<le> 32) \<or> c = 133 \<or> c = 160 \<or> c = 5760 \<or>
     (8192 \<le> c \<and> c \<le> 8202) \<or> c = 8232 \<or> c = 8233 \<or> c = 8239 \<or> c = 8287 \<or> c = 12288"

definition strip :: "pystr \<Rightarrow> pystr" where
  "strip s = rev (dropWhile isspace (rev (dropWhile isspace s)))"

definition startswith :: "pystr \<Rightarrow> pystr \<Rightarrow> bool" where
  "startswith s p \<longleftrightarrow> take (length p) s = p"

text \<open>\<open>contains k s\<close> is Python's \<open>k in s\<close> on strings: \<open>k\<close> occurs in \<open>s\<close> as a substring.\<close>

fun contains :: "pystr \<Rightarrow> pystr \<Rightarrow> bool" where
  "contains k [] \<longleftrightarrow> k = []"
| "contains k (c # cs) \<longleftrightarrow> startswith (c # cs) k \<or> contains k cs"

text \<open>\<open>join sep parts\<close> is \<open>sep.join(parts)\<close>.\<close>

fun join :: "pystr \<Rightarrow> pystr list \<Rightarrow> pystr" where
  "join sep [] = []"
| "join sep [x] = x"
| "join sep (x # y # ys) = x @ sep @ join sep (y # ys)"

text \<open>\<open>split_first sep s\<close> is \<open>s.split(sep)[0]\<close> for a one-character separator: the part of
  \<open>s\<close> before the first \<open>sep\<close>, all of \<open>s\<close> when there is none.\<close>

definition split_first :: "nat \<Rightarrow> pystr \<Rightarrow> pystr" where
  "split_first sep s = takeWhile (\<lambda>c. c \<noteq> sep) s"

text \<open>\<open>split_sep sep s\<close> is \<open>s.split(sep)\<close> for a one-character separator (empty fields are
  kept); \<open>split_ws\<close> is \<open>s.split()\<close>: the maximal runs of non-whitespace.\<close>

fun split_sep :: "nat \<Rightarrow> pystr \<Rightarrow> pystr list" where
  "split_sep sep [] = [[]]"
| "split_sep sep (c # cs) =
     (if c = sep then [] # split_sep sep cs
      else (case split_sep sep cs of [] \<Rightarrow> [[c]] | w # ws \<Rightarrow> (c # w) # ws))"

fun split_ws_acc :: "pystr \<Rightarrow> pystr \<Rightarrow> pystr list" where
  "split_ws_acc w [] = (if w = [] then [] else [w])"
| "split_ws_acc w (c # cs) =
     (if isspace c then (if w = [] then split_ws_acc [] cs else w # split_ws_acc [] cs)
      else split_ws_acc (w @ [c]) cs)"

definition split_ws :: "pystr \<Rightarrow> pystr list" where
  "split_ws s = split_ws_acc [] s"

section \<open>Exceptions\<close>

datatype exn =
  ValueError string | UnboundLocalError string | IndexError string | OSError string

section \<open>shlex.split\<close>

text \<open>
  \<open>shlex.split(s)\<close> runs the standard library's lexer in POSIX mode with
  \<open>whitespace_split = True\<close> and no comment characters. \<open>lex_state\<close> is the lexer's
  \<open>self.state\<close>: \<open>' '\<close> (between tokens), \<open>'a'\<close> (in a word), a quote character, or the
  escape character; \<open>escapedstate\<close> has the same values. \<open>read_tokens\<close> is \<open>read_token\<close>
  iterated over the input: its arguments are \<open>state\<close>, \<open>quoted\<close>, \<open>escapedstate\<close> and
  \<open>token\<close>, and where \<open>read_token\<close> leaves its loop with a token, the token is put in
  front of what the following calls (with \<open>quoted\<close>, \<open>escapedstate\<close> and \<open>token\<close> reset)
  return; the lexer's test \<open>self.token or quoted\<close> is written from its negation. The
  lexer's tests \<open>nextchar in self.wordchars\<close> and \<open>self.whitespace_split\<close> lead
  to the same assignments and are one branch here. A \<open>ValueError\<close> ends the whole split.
\<close>

datatype lex_state = In_space | In_word | In_quote nat | In_escape

definition lex_whitespace :: "nat \<Rightarrow> bool" where
  "lex_whitespace c \<longleftrightarrow> c = 32 \<or> c = 9 \<or> c = 13 \<or> c = 10"

definition lex_quote :: "nat \<Rightarrow> bool" where
  "lex_quote c \<longleftrightarrow> c = 39 \<or> c = 34"

definition emit :: "pystr \<Rightarrow> exn + pystr list \<Rightarrow> exn + pystr list" where
  "emit tok r = (case r of Inl e \<Rightarrow> Inl e | Inr ts \<Rightarrow> Inr (tok # ts))"

fun read_tokens :: "lex_state \<Rightarrow> bool \<Rightarrow> lex_state \<Rightarrow> pystr \<Rightarrow> pystr \<Rightarrow> exn + pystr list" where
  "read_tokens In_space quoted esc tok [] = Inr (if \<not> quoted \<and> tok = [] then [] else [tok])"
| "read_tokens In_word quoted esc tok [] = Inr (if \<not> quoted \<and> tok = [] then [] else [tok])"
| "read_tokens (In_quote q) quoted esc tok [] = Inl (ValueError ''No closing quotation'')"
| "read_tokens In_escape quoted esc tok [] = Inl (ValueError ''No escaped character'')"
| "read_tokens In_space quoted esc tok (c # cs) =
     (if lex_whitespace c then
        (if tok = [] \<and> \<not> quoted then read_tokens In_space quoted esc tok cs
         else emit tok (read_tokens In_space False In_space [] cs))
      else if c = 92 then read_tokens In_escape quoted In_word tok cs
      else if lex_quote c then read_tokens (In_quote c) quoted esc tok cs
      else read_tokens In_word quoted esc [c] cs)"
| "read_tokens (In_quote q) quoted esc tok (c # cs) =
     (if c = q then read_tokens In_word True esc tok cs
      else if c = 92 \<and> q = 34 then read_tokens In_escape True (In_quote q) tok cs
      else read_tokens (In_quote q) True esc (tok @ [c]) cs)"
| "read_tokens In_escape quoted esc tok (c # cs) =
     (let tok' = (case esc of In_quote q \<Rightarrow> if c \<noteq> 92 \<and> c \<noteq> q then tok @ [92] else tok
                   | _ \<Rightarrow> tok)
      in read_tokens esc quoted esc (tok' @ [c]) cs)"
| "read_tokens In_word quoted esc tok (c # cs) =
     (if lex_whitespace c then
        (if tok = [] \<and> \<not> quoted then read_tokens In_space quoted esc tok cs
         else emit tok (read_tokens In_space False In_space [] cs))
      else if lex_quote c then read_tokens (In_quote c) quoted esc tok cs
      else if c = 92 then read_tokens In_escape quoted In_word tok cs
      else read_tokens In_word quoted esc (tok @ [c]) cs)"

definition shlex_split :: "pystr \<Rightarrow> exn + pystr list" where
  "shlex_split s = read_tokens In_space False In_space [] s"

section \<open>Paths\<close>

text \<open>
  A \<open>pathlib.Path\<close> is modelled by the string it was made from. \<open>path_root\<close> and
  \<open>path_parts\<close> are the root and the components \<open>pathlib\<close> parses from it on POSIX (empty
  and \<open>.\<close> components are dropped; exactly two leading slashes are a root of their own),
  \<open>path_str\<close> is \<open>str(Path(s))\<close>, \<open>path_name\<close> is \<open>.name\<close> and \<open>stem\<close> is \<open>.stem\<close>.
  \<open>joinpath a b\<close> is \<open>a / b\<close> for a path \<open>a\<close> already in the form \<open>path_str\<close> gives and a
  relative \<open>b\<close> free of empty and \<open>.\<close> components, which is what the program joins.
\<close>

definition path_root :: "pystr \<Rightarrow> pystr" where
  "path_root s =
     (if startswith s (str ''//'') \<and> \<not> startswith s (str ''///'') then str ''//''
      else if startswith s (str ''/'') then str ''/''
      else [])"

definition path_parts :: "pystr \<Rightarrow> pystr list" where
  "path_parts s = filter (\<lambda>p. p \<noteq> [] \<and> p \<noteq> str ''.'') (split_sep 47 s)"

definition path_str :: "pystr \<Rightarrow> pystr" where
  "path_str s =
     (if path_root s = [] \<and> path_parts s = [] then str ''.''
      else path_root s @ join (str ''/'') (path_parts s))"

definition is_absolute :: "pystr \<Rightarrow> bool" where
  "is_absolute s \<longleftrightarrow> path_root s \<noteq> []"

definition path_name :: "pystr \<Rightarrow> pystr" where
  "path_name s = (case rev (path_parts s) of [] \<Rightarrow> [] | n # _ \<Rightarrow> n)"

text \<open>\<open>rfind c s\<close> is \<open>s.rfind(c)\<close>: the last index of \<open>c\<close> in \<open>s\<close>, or \<open>-1\<close>.\<close>

definition rfind :: "nat \<Rightarrow> pystr \<Rightarrow> int" where
  "rfind c s = (case rev (filter (\<lambda>i. s ! i = c) [0..<length s]) of [] \<Rightarrow> - 1 | i # _ \<Rightarrow> int i)"

definition stem :: "pystr \<Rightarrow> pystr" where
  "stem s =
     (let name = path_name s; i = rfind 46 name
      in if 0 < i \<and> i < int (length name) - 1 then take (nat i) name else name)"

definition joinpath :: "pystr \<Rightarrow> pystr \<Rightarrow> pystr" where
  "joinpath a b =
     (if a = str ''.'' then b
      else if a \<noteq> [] \<and> last a = 47 then a @ b
      else a @ str ''/'' @ b)"

section \<open>The environment\<close>

text \<open>
  Everything the program reads from outside is a field of \<open>env\<close>: the home directory
  (\<open>Path.home()\<close>), the variable \<open>XDG_CONFIG_HOME\<close>, what \<open>Path.exists()\<close> answers for a
  path, what \<open>d.glob("*.desktop")\<close> yields for a directory (in the order the system lists
  it), what \<open>ConfigParser.read\<close> makes of a file, what \<open>json.load\<close> makes of a file, which
  names \<open>shutil.which\<close> finds, whether \<open>subprocess.Popen\<close> raises, and the case mappings
  of the interpreter.

  \<open>Path.exists()\<close> answers \<open>True\<close> or \<open>False\<close>, or raises: it returns \<open>False\<close> for a missing
  path and re-raises every other \<open>OSError\<close> (a component that is too long, a directory
  without search permission). \<open>glob\<close> lists the directory before it yields the first path
  and can raise too. A parsed file is the list of its sections, each with its options;
  \<open>None\<close> stands for \<open>cfg.read\<close> raising (a file that cannot be opened is skipped by
  \<open>read\<close> and gives no sections). An option is looked up under the name the program asks
  for.

  \<open>lower\<close> is \<open>str.lower()\<close>, a function of the whole string (the lowercase of a capital
  sigma depends on its neighbours). \<open>str.upper()\<close> maps every code point by itself to one
  or more code points: \<open>to_upper c\<close> is the first of them and the rest, and \<open>upper\<close> is
  \<open>str.upper()\<close>. The debug log \<open>launch_app\<close> appends to is outside the model.
\<close>

type_synonym cfg_section = "(pystr \<times> pystr) list"
type_synonym config = "(pystr \<times> cfg_section) list"

record env =
  home :: pystr
  xdg_config_home :: "pystr option"
  path_exists :: "pystr \<Rightarrow> exn + bool"
  glob_desktop :: "pystr \<Rightarrow> exn + pystr list"
  read_cfg :: "pystr \<Rightarrow> config option"
  json_load :: "pystr \<Rightarrow> (pystr \<times> pystr) list option"
  which :: "pystr \<Rightarrow> bool"
  popen_error :: "pystr list \<Rightarrow> pystr option"
  lower :: "pystr \<Rightarrow> pystr"
  to_upper :: "nat \<Rightarrow> nat \<times> nat list"

definition upper :: "env \<Rightarrow> pystr \<Rightarrow> pystr" where
  "upper e s = concat (map (\<lambda>c. fst (to_upper e c) # snd (to_upper e c)) s)"

definition CONFIG_DIR :: "env \<Rightarrow> pystr" where
  "CONFIG_DIR e =
     joinpath (case xdg_config_home e of None \<Rightarrow> joinpath (home e) (str ''.config'')
               | Some x \<Rightarrow> path_str x) (str ''cyberdesk'')"

definition DESKTOP_PATHS :: "env \<Rightarrow> pystr list" where
  "DESKTOP_PATHS e =
     [str ''/usr/share/applications'', joinpath (home e) (str ''.local/share/applications'')]"

definition ICON_MAP :: "(pystr \<times> pystr) list" where
  "ICON_MAP =
     [(str ''firefox'', [62057]), (str ''chrome'', [62056]), (str ''brave'', [59240]),
      (str ''code'', [59148]), (str ''neovim'', [58923]), (str ''vim'', [58923]),
      (str ''terminal'', [61728]), (str ''kitty'', [128049]), (str ''alacritty'', [61728]),
      (str ''urxvt'', [61728]),
      (str ''files'', [61564]), (str ''folder'', [61564]), (str ''nautilus'', [61564]),
      (str ''thunar'', [61564]), (str ''dolphin'', [61564]),
      (str ''settings'', [61459]), (str ''control'', [127898, 65039]), (str ''qt'', [61948]),
      (str ''rofi'', [61442]), (str ''run'', [61442]),
      (str ''vlc'', [61448]), (str ''mpv'', [61448]), (str ''obs'', [61501]),
      (str ''monitor'', [61568]), (str ''btop'', [61568]),
      (str ''discord'', [64366]), (str ''spotify'', [61884]), (str ''steam'', [61878]),
      (str ''waypaper'', [61502]), (str ''wallpaper'', [61502]), (str ''nitrogen'', [61502]),
      (str ''xournal'', [61504]), (str ''draw'', [61504]), (str ''paint'', [61893]),
      (str ''gimp'', [61893]),
      (str ''uuctl'', [62087]), (str ''usb'', [62087])]"

definition load_icon_overrides :: "env \<Rightarrow> pystr \<Rightarrow> exn + (pystr \<times> pystr) list" where
  "load_icon_overrides e path =
     (case path_exists e path of
        Inl err \<Rightarrow> Inl err
      | Inr b \<Rightarrow>
          if \<not> b then Inr []
          else Inr (case json_load e path of None \<Rightarrow> [] | Some d \<Rightarrow> d))"

section \<open>find_real_icon_path\<close>

text \<open>
  \<open>first_hit f xs\<close> is a \<open>for\<close> loop whose body may return or raise: the first result
  \<open>f\<close> gives over \<open>xs\<close>, the first exception if one comes before, or \<open>None\<close> when the
  loop runs to its end. \<open>probe\<close> is \<open>if p.exists(): return str(p)\<close>. Nothing in
  \<open>find_real_icon_path\<close> catches an exception.
\<close>

fun first_hit :: "('a \<Rightarrow> exn + 'b option) \<Rightarrow> 'a list \<Rightarrow> exn + 'b option" where
  "first_hit f [] = Inr None"
| "first_hit f (x # xs) =
     (case f x of Inl err \<Rightarrow> Inl err | Inr None \<Rightarrow> first_hit f xs | Inr (Some y) \<Rightarrow> Inr (Some y))"

definition probe :: "env \<Rightarrow> pystr \<Rightarrow> exn + pystr option" where
  "probe e p =
     (case path_exists e p of Inl err \<Rightarrow> Inl err | Inr b \<Rightarrow> Inr (if b then Some p else None))"

definition search_roots :: "env \<Rightarrow> pystr list" where
  "search_roots e =
     [str ''/usr/share/pixmaps'', str ''/usr/share/icons/hicolor'',
      str ''/usr/share/icons/Adwaita'', str ''/usr/share/icons/breeze'',
      str ''/usr/share/icons/Papirus'', joinpath (home e) (str ''.local/share/icons'')]"

definition resolutions :: "pystr list" where
  "resolutions = [str ''256x256'', str ''128x128'', str ''64x64'', str ''48x48'', str ''scalable'']"

definition subdirs :: "pystr list" where
  "subdirs = [str ''apps'', str ''categories'', str ''places'', str ''devices'']"

definition extensions :: "pystr list" where
  "extensions = [str ''.png'', str ''.svg'', str ''.jpg'', str ''.ico'']"

definition search_direct :: "env \<Rightarrow> pystr \<Rightarrow> exn + pystr option" where
  "search_direct e clean_name =
     first_hit (\<lambda>root.
       case path_exists e root of
         Inl err \<Rightarrow> Inl err
       | Inr b \<Rightarrow>
           if \<not> b then Inr None
           else first_hit (\<lambda>ext. probe e (joinpath root (clean_name @ ext))) extensions)
     (search_roots e)"

definition search_subdirs :: "env \<Rightarrow> pystr \<Rightarrow> exn + pystr option" where
  "search_subdirs e clean_name =
     first_hit (\<lambda>root.
       case path_exists e root of
         Inl err \<Rightarrow> Inl err
       | Inr b \<Rightarrow>
           if \<not> b then Inr None
           else first_hit (\<lambda>res. first_hit (\<lambda>sub. first_hit (\<lambda>ext.
                  (case probe e (joinpath (joinpath (joinpath root res) sub) (clean_name @ ext)) of
                     Inl err \<Rightarrow> Inl err
                   | Inr (Some p) \<Rightarrow> Inr (Some p)
                   | Inr None \<Rightarrow>
                       probe e (joinpath (joinpath (joinpath root res) sub)
                                  (lower e clean_name @ ext))))
                extensions) subdirs) resolutions)
     (search_roots e)"

definition find_real_icon_path :: "env \<Rightarrow> pystr \<Rightarrow> exn + pystr option" where
  "find_real_icon_path e icon_name =
     (if icon_name = [] then Inr None
      else
        (case (if is_absolute icon_name then path_exists e (path_str icon_name) else Inr False) of
           Inl err \<Rightarrow> Inl err
         | Inr b \<Rightarrow>
             if b then Inr (Some (path_str icon_name))
             else (case search_direct e (stem icon_name) of
                     Inl err \<Rightarrow> Inl err
                   | Inr (Some p) \<Rightarrow> Inr (Some p)
                   | Inr None \<Rightarrow> search_subdirs e (stem icon_name))))"

section \<open>CyberDesk: parse_desktop and load_apps\<close>

text \<open>
  An entry of the catalog is the dictionary \<open>parse_desktop\<close> returns, with its keys
  \<open>id\<close>, \<open>Name\<close>, \<open>Exec\<close>, \<open>icon\<close>, \<open>icon_path\<close> and \<open>terminal\<close>. \<open>cyberdesk\<close> holds the
  attributes of the application object that \<open>__init__\<close> sets; \<open>__init__\<close> raises when the
  probe of the overrides file does.
\<close>

record app_entry =
  entry_id :: pystr
  Name :: pystr
  Exec :: pystr
  icon :: pystr
  icon_path :: "pystr option"
  terminal :: bool

record cyberdesk =
  apps :: "app_entry list"
  icons_override :: "(pystr \<times> pystr) list"
  page_offset :: int

definition init :: "env \<Rightarrow> exn + cyberdesk" where
  "init e =
     (case load_icon_overrides e (joinpath (CONFIG_DIR e) (str ''icons.json'')) of
        Inl err \<Rightarrow> Inl err
      | Inr ov \<Rightarrow> Inr \<lparr>apps = [], icons_override = ov, page_offset = 0\<rparr>)"

text \<open>\<open>entry_get entry key fallback\<close> is \<open>entry.get(key, fallback)\<close>.\<close>

definition entry_get :: "cfg_section \<Rightarrow> pystr \<Rightarrow> pystr \<Rightarrow> pystr" where
  "entry_get entry key fallback = (case map_of entry key of None \<Rightarrow> fallback | Some v \<Rightarrow> v)"

text \<open>\<open>exec_clean\<close> is the value \<open>parse_desktop\<close> computes into its variable of that name
  from \<open>raw_exec\<close>, and \<open>icon_char\<close> the value of that variable at the \<open>return\<close>;
  \<open>first_some\<close> is the \<open>for\<close> loop over \<open>ICON_MAP\<close>, left at the first match.\<close>

definition exec_clean :: "pystr \<Rightarrow> pystr" where
  "exec_clean raw_exec =
     (if raw_exec = [] then []
      else (case shlex_split raw_exec of
              Inr ps \<Rightarrow> join (str '' '') (filter (\<lambda>p. \<not> startswith p (str ''%'')) ps)
            | Inl _ \<Rightarrow> strip (split_first 37 raw_exec)))"

fun first_some :: "('a \<Rightarrow> 'b option) \<Rightarrow> 'a list \<Rightarrow> 'b option" where
  "first_some f [] = None"
| "first_some f (x # xs) = (case f x of Some y \<Rightarrow> Some y | None \<Rightarrow> first_some f xs)"

definition icon_char :: "env \<Rightarrow> pystr option \<Rightarrow> pystr \<Rightarrow> pystr \<Rightarrow> pystr \<Rightarrow> pystr" where
  "icon_char e real_icon_path exec_cl icon_name name =
     (if real_icon_path = None \<or> real_icon_path = Some [] then
        (let lower_name = lower e (exec_cl @ str '' '' @ icon_name);
             c = (case first_some (\<lambda>(k, v). if contains k lower_name then Some v else None)
                         ICON_MAP of
                    Some v \<Rightarrow> v
                  | None \<Rightarrow> str ''?'')
         in if c = str ''?'' then upper e (take 1 name) else c)
      else str ''?'')"

text \<open>The call of \<open>find_real_icon_path\<close> is outside the \<open>try\<close> of \<open>parse_desktop\<close>: an
  exception it raises leaves \<open>parse_desktop\<close>.\<close>

definition parse_desktop :: "env \<Rightarrow> cyberdesk \<Rightarrow> pystr \<Rightarrow> exn + app_entry option" where
  "parse_desktop e self path =
     (case read_cfg e path of
        None \<Rightarrow> Inr None
      | Some cfg \<Rightarrow>
          (case map_of cfg (str ''Desktop Entry'') of
             None \<Rightarrow> Inr None
           | Some entry \<Rightarrow>
               if lower e (entry_get entry (str ''NoDisplay'') (str ''false'')) = str ''true''
               then Inr None
               else
                 (let name = entry_get entry (str ''Name'') (stem path);
                      raw_exec = entry_get entry (str ''Exec'') [];
                      icon_name = entry_get entry (str ''Icon'') [];
                      term_val = lower e (entry_get entry (str ''Terminal'') (str ''false''));
                      is_terminal = (term_val = str ''true'' \<or> term_val = str ''1'');
                      exec_cl = exec_clean raw_exec
                  in case find_real_icon_path e icon_name of
                       Inl err \<Rightarrow> Inl err
                     | Inr real_icon_path \<Rightarrow>
                         Inr (Some \<lparr>entry_id = stem path, Name = name, Exec = exec_cl,
                            icon = icon_char e real_icon_path exec_cl icon_name name,
                            icon_path = real_icon_path, terminal = is_terminal\<rparr>))))"

text \<open>
  The first loop of \<open>load_apps\<close>. Its state is the list \<open>apps\<close> and the two local
  variables \<open>seen\<close> and \<open>filtered\<close>, which are assigned at the end of the body of the loop
  over the directories and are unbound (\<open>None\<close>) until a directory exists. \<open>parse_all\<close> is
  the inner loop over the files of one directory. An exception of \<open>d.exists()\<close>, of
  \<open>glob\<close> or of \<open>parse_desktop\<close> leaves \<open>load_apps\<close>.
\<close>

fun parse_all :: "env \<Rightarrow> cyberdesk \<Rightarrow> pystr list \<Rightarrow> exn + app_entry list" where
  "parse_all e self [] = Inr []"
| "parse_all e self (p # ps) =
     (case parse_desktop e self p of
        Inl err \<Rightarrow> Inl err
      | Inr data \<Rightarrow>
          (case parse_all e self ps of
             Inl err \<Rightarrow> Inl err
           | Inr as \<Rightarrow> Inr (case data of None \<Rightarrow> as | Some a \<Rightarrow> a # as)))"

type_synonym locals = "((pystr \<times> pystr) set \<times> app_entry list) option"

fun scan_dirs :: "env \<Rightarrow> cyberdesk \<Rightarrow> pystr list \<Rightarrow> app_entry list \<times> locals \<Rightarrow>
    exn + app_entry list \<times> locals" where
  "scan_dirs e self [] st = Inr st"
| "scan_dirs e self (d # ds) (as, loc) =
     (case path_exists e d of
        Inl err \<Rightarrow> Inl err
      | Inr b \<Rightarrow>
          if \<not> b then scan_dirs e self ds (as, loc)
          else (case glob_desktop e d of
                  Inl err \<Rightarrow> Inl err
                | Inr ps \<Rightarrow>
                    (case parse_all e self ps of
                       Inl err \<Rightarrow> Inl err
                     | Inr new \<Rightarrow> scan_dirs e self ds (as @ new, Some ({}, [])))))"

text \<open>The second loop: \<open>for a in apps\<close>, with \<open>seen\<close> and \<open>filtered\<close> bound.\<close>

fun dedup :: "app_entry list \<Rightarrow> (pystr \<times> pystr) set \<Rightarrow> app_entry list \<Rightarrow> app_entry list" where
  "dedup [] seen filtered = filtered"
| "dedup (a # as) seen filtered =
     (if (Name a, Exec a) \<notin> seen then dedup as (insert (Name a, Exec a) seen) (filtered @ [a])
      else dedup as seen filtered)"

definition fallback_entry :: app_entry where
  "fallback_entry =
     \<lparr>entry_id = str ''1'', Name = str ''Term'', Exec = str ''bash'', icon = [61728],
      icon_path = None, terminal = True\<rparr>"

definition load_apps :: "env \<Rightarrow> cyberdesk \<Rightarrow> exn + cyberdesk" where
  "load_apps e self =
     (case scan_dirs e self (DESKTOP_PATHS e) ([], None) of
        Inl err \<Rightarrow> Inl err
      | Inr (as, None) \<Rightarrow>
          (if as = [] then Inl (UnboundLocalError ''filtered'')
           else Inl (UnboundLocalError ''seen''))
      | Inr (as, Some (seen, filtered)) \<Rightarrow>
          (let sorted_apps = sort_key (\<lambda>x. lower e (Name x)) (dedup as seen filtered)
           in Inr (self\<lparr>apps := (if sorted_apps = [] then [fallback_entry] else sorted_apps)\<rparr>)))"

text \<open>What \<open>on_mount\<close> does after the constructor: the first build of the catalog.\<close>

definition startup :: "env \<Rightarrow> exn + cyberdesk" where
  "startup e = (case init e of Inl err \<Rightarrow> Inl err | Inr self \<Rightarrow> load_apps e self)"

section \<open>AppIcon\<close>

record app_icon =
  app_id :: pystr
  app_name :: pystr
  icon_glyph :: pystr
  command :: pystr
  icon_file_path :: "pystr option"
  is_terminal :: bool

text \<open>\<open>AppIcon.__init__\<close>, and the call \<open>render_icons\<close> makes of it for an entry of the
  catalog. The attribute \<open>self.icon_char\<close> is the field \<open>icon_glyph\<close>.\<close>

definition AppIcon :: "pystr \<Rightarrow> pystr \<Rightarrow> pystr \<Rightarrow> pystr \<Rightarrow> pystr option \<Rightarrow> bool \<Rightarrow> app_icon" where
  "AppIcon ident label ic cmd ic_path term =
     \<lparr>app_id = ident,
      app_name = (if label = [] then str ''Unknown'' else label),
      icon_glyph = (if ic = [] then str ''?'' else ic),
      command = cmd, icon_file_path = ic_path, is_terminal = term\<rparr>"

definition icon_of_entry :: "app_entry \<Rightarrow> app_icon" where
  "icon_of_entry app =
     AppIcon (entry_id app) (Name app) (icon app) (Exec app) (icon_path app) (terminal app)"







section \<open>The combined parse results\<close>

text \<open>\<open>collected\<close> is what the first loop of \<open>load_apps\<close> leaves in \<open>apps\<close> when it runs to
  its end: the entries parsed from the files of every descriptor directory that exists, in
  scan order.\<close>

definition parsed_entries :: "env \<Rightarrow> cyberdesk \<Rightarrow> pystr list \<Rightarrow> app_entry list" where
  "parsed_entries e self ps =
     List.map_filter (\<lambda>p. case parse_desktop e self p of Inl err \<Rightarrow> None | Inr data \<Rightarrow> data) ps"

definition collected :: "env \<Rightarrow> cyberdesk \<Rightarrow> app_entry list" where
  "collected e self =
     concat (map (\<lambda>d. case glob_desktop e d of Inl err \<Rightarrow> [] | Inr ps \<Rightarrow> parsed_entries e self ps)
       (filter (\<lambda>d. path_exists e d = Inr True) (DESKTOP_PATHS e)))"

section \<open>Sample environments\<close>

text \<open>
  The sample environments hold ASCII strings only; on those, \<open>ascii_lower\<close> and
  \<open>ascii_to_upper\<close> are the case mappings of every interpreter. \<open>new_app\<close> is the
  application object the constructor returns when there is no overrides file.

  \<open>bare_env\<close> is a system on which neither descriptor directory exists. \<open>demo_env\<close> has
  both: the system directory holds \<open>zed.desktop\<close>, \<open>blank.desktop\<close> (empty \<open>Name\<close> and
  \<open>Exec\<close>), \<open>copy.desktop\<close> (the name and command of \<open>zed.desktop\<close>) and
  \<open>hidden.desktop\<close> (\<open>NoDisplay\<close>), the user directory a second \<open>zed.desktop\<close> with another
  name and command. \<open>icon_env\<close> has both a direct and a themed icon file for \<open>firefox\<close>,
  and the descriptors \<open>firefox.desktop\<close> (with that icon) and \<open>kitty.desktop\<close> (without an
  icon). On \<open>denied_env\<close> the directory \<open>/usr/share/pixmaps\<close> exists but may not be
  searched, so that the probe of a file in it raises.
\<close>

definition ascii_lower :: "pystr \<Rightarrow> pystr" where
  "ascii_lower s = map (\<lambda>c. if 65 \<le> c \<and> c \<le> 90 then c + 32 else c) s"

definition ascii_to_upper :: "nat \<Rightarrow> nat \<times> nat list" where
  "ascii_to_upper c = (if 97 \<le> c \<and> c \<le> 122 then c - 32 else c, [])"

definition new_app :: cyberdesk where
  "new_app = \<lparr>apps = [], icons_override = [], page_offset = 0\<rparr>"

definition bare_env :: env where
  "bare_env =
     \<lparr>home = str ''/home/user'', xdg_config_home = None, path_exists = (\<lambda>p. Inr False),
      glob_desktop = (\<lambda>d. Inr []), read_cfg = (\<lambda>p. Some []), json_load = (\<lambda>p. None),
      which = (\<lambda>x. False), popen_error = (\<lambda>ps. None),
      lower = ascii_lower, to_upper = ascii_to_upper\<rparr>"

definition sys_dir :: pystr where "sys_dir = str ''/usr/share/applications''"

definition user_dir :: pystr where "user_dir = str ''/home/user/.local/share/applications''"

definition zed_section :: cfg_section where
  "zed_section = [(str ''Name'', str ''Zed''), (str ''Exec'', str ''zed %F''),
                  (str ''Terminal'', str ''false'')]"

definition blank_section :: cfg_section where
  "blank_section = [(str ''Name'', []), (str ''Exec'', [])]"

definition copy_section :: cfg_section where
  "copy_section = [(str ''Name'', str ''Zed''), (str ''Exec'', str ''zed %U'')]"

definition hidden_section :: cfg_section where
  "hidden_section = [(str ''Name'', str ''Hidden''), (str ''NoDisplay'', str ''True'')]"

definition apple_section :: cfg_section where
  "apple_section = [(str ''Name'', str ''apple''), (str ''Exec'', str ''top''),
                    (str ''Terminal'', str ''True'')]"

definition demo_env :: env where
  "demo_env =
     \<lparr>home = str ''/home/user'', xdg_config_home = None,
      path_exists = (\<lambda>p. Inr (p = sys_dir \<or> p = user_dir)),
      glob_desktop = (\<lambda>d.
        if d = sys_dir then
          Inr [str ''/usr/share/applications/zed.desktop'',
               str ''/usr/share/applications/blank.desktop'',
               str ''/usr/share/applications/copy.desktop'',
               str ''/usr/share/applications/hidden.desktop'']
        else if d = user_dir then Inr [str ''/home/user/.local/share/applications/zed.desktop'']
        else Inr []),
      read_cfg = (\<lambda>p.
        if p = str ''/usr/share/applications/zed.desktop''
          then Some [(str ''Desktop Entry'', zed_section)]
        else if p = str ''/usr/share/applications/blank.desktop''
          then Some [(str ''Desktop Entry'', blank_section)]
        else if p = str ''/usr/share/applications/copy.desktop''
          then Some [(str ''Desktop Entry'', copy_section)]
        else if p = str ''/usr/share/applications/hidden.desktop''
          then Some [(str ''Desktop Entry'', hidden_section)]
        else if p = str ''/home/user/.local/share/applications/zed.desktop''
          then Some [(str ''Desktop Entry'', apple_section)]
        else Some []),
      json_load = (\<lambda>p. None), which = (\<lambda>x. False), popen_error = (\<lambda>ps. None),
      lower = ascii_lower, to_upper = ascii_to_upper\<rparr>"

definition zed_entry :: app_entry where
  "zed_entry = \<lparr>entry_id = str ''zed'', Name = str ''Zed'', Exec = str ''zed'', icon = str ''Z'',
     icon_path = None, terminal = False\<rparr>"

definition blank_entry :: app_entry where
  "blank_entry = \<lparr>entry_id = str ''blank'', Name = [], Exec = [], icon = [],
     icon_path = None, terminal = False\<rparr>"

definition copy_entry :: app_entry where
  "copy_entry = \<lparr>entry_id = str ''copy'', Name = str ''Zed'', Exec = str ''zed'', icon = str ''Z'',
     icon_path = None, terminal = False\<rparr>"

definition apple_entry :: app_entry where
  "apple_entry = \<lparr>entry_id = str ''zed'', Name = str ''apple'', Exec = str ''top'', icon = str ''A'',
     icon_path = None, terminal = True\<rparr>"

definition firefox_section :: cfg_section where
  "firefox_section = [(str ''Name'', str ''Firefox''), (str ''Exec'', str ''firefox %u''),
                      (str ''Icon'', str ''firefox'')]"

definition kitty_section :: cfg_section where
  "kitty_section = [(str ''Name'', str ''Kitty''), (str ''Exec'', str ''kitty'')]"

definition icon_env :: env where
  "icon_env =
     \<lparr>home = str ''/home/user'', xdg_config_home = None,
      path_exists = (\<lambda>p. Inr (p = str ''/usr/share/pixmaps'' \<or> p = str ''/usr/share/icons/hicolor'' \<or>
                         p = str ''/usr/share/pixmaps/firefox.svg'' \<or>
                         p = str ''/usr/share/icons/hicolor/256x256/apps/firefox.png'' \<or>
                         p = sys_dir)),
      glob_desktop = (\<lambda>d.
        if d = sys_dir then
          Inr [str ''/usr/share/applications/firefox.desktop'',
               str ''/usr/share/applications/kitty.desktop'']
        else Inr []),
      read_cfg = (\<lambda>p.
        if p = str ''/usr/share/applications/firefox.desktop''
          then Some [(str ''Desktop Entry'', firefox_section)]
        else if p = str ''/usr/share/applications/kitty.desktop''
          then Some [(str ''Desktop Entry'', kitty_section)]
        else Some []),
      json_load = (\<lambda>p. None),
      which = (\<lambda>x. False), popen_error = (\<lambda>ps. None),
      lower = ascii_lower, to_upper = ascii_to_upper\<rparr>"

definition firefox_entry :: app_entry where
  "firefox_entry = \<lparr>entry_id = str ''firefox'', Name = str ''Firefox'', Exec = str ''firefox'',
     icon = str ''?'', icon_path = Some (str ''/usr/share/pixmaps/firefox.svg''),
     terminal = False\<rparr>"

definition kitty_entry :: app_entry where
  "kitty_entry = \<lparr>entry_id = str ''kitty'', Name = str ''Kitty'', Exec = str ''kitty'',
     icon = [128049], icon_path = None, terminal = False\<rparr>"


section \<open>The candidates of the icon search, in priority order\<close>






section \<open>Properties of the catalog builder\<close>

lemma parse_all_Inr: "parse_all e self ps = Inr as \<Longrightarrow> as = parsed_entries e self ps"
  by (induction ps arbitrary: as)
     (auto simp: parsed_entries_def List.map_filter_simps split: sum.splits option.splits)

lemma scan_dirs_Inr:
  "scan_dirs e self ds (as, loc) = Inr (as', loc') \<Longrightarrow>
     as' = as @ concat (map (\<lambda>d. case glob_desktop e d of Inl err \<Rightarrow> []
                                  | Inr ps \<Rightarrow> parsed_entries e self ps)
                 (filter (\<lambda>d. path_exists e d = Inr True) ds)) \<and>
     loc' = (if \<exists>d\<in>set ds. path_exists e d = Inr True then Some ({}, []) else loc)"
proof (induction ds arbitrary: as loc)
  case Nil
  then show ?case by simp
next
  case (Cons d ds)
  show ?case
  proof (cases "path_exists e d")
    case (Inl err)
    then show ?thesis using Cons.prems by simp
  next
    case (Inr b)
    show ?thesis
    proof (cases b)
      case False
      then show ?thesis using Cons.prems Cons.IH [of as loc] Inr by simp
    next
      case True
      from Cons.prems Inr True obtain ps new
        where g: "glob_desktop e d = Inr ps" and p: "parse_all e self ps = Inr new"
          and s: "scan_dirs e self ds (as @ new, Some ({}, [])) = Inr (as', loc')"
        by (auto split: sum.splits)
      have n: "new = parsed_entries e self ps" using p by (rule parse_all_Inr)
      show ?thesis using Cons.IH [OF s] Inr True g n by simp
    qed
  qed
qed

lemma dedup_append: "dedup as seen filtered = filtered @ dedup as seen []"
proof (induction as arbitrary: seen filtered)
  case Nil
  show ?case by simp
next
  case (Cons a as)
  show ?case
    using Cons.IH [of "insert (Name a, Exec a) seen" "filtered @ [a]"]
      Cons.IH [of "insert (Name a, Exec a) seen" "[a]"] Cons.IH [of seen filtered]
    by simp
qed

lemma dedup_filter:
  "filter (\<lambda>c. (Name c, Exec c) = k) (dedup as seen []) =
     (if k \<in> seen then []
      else (case find (\<lambda>b. (Name b, Exec b) = k) as of None \<Rightarrow> [] | Some b \<Rightarrow> [b]))"
proof (induction as arbitrary: seen)
  case Nil
  show ?case by simp
next
  case (Cons a as)
  show ?case
  proof (cases "(Name a, Exec a) \<in> seen")
    case True
    then show ?thesis using Cons.IH [of seen] by auto
  next
    case False
    have "dedup (a # as) seen [] = a # dedup as (insert (Name a, Exec a) seen) []"
      using False dedup_append [of as "insert (Name a, Exec a) seen" "[a]"] by simp
    then show ?thesis using False Cons.IH [of "insert (Name a, Exec a) seen"] by auto
  qed
qed

lemma dedup_seen: "(Name c, Exec c) \<in> seen \<Longrightarrow> c \<notin> set (dedup as seen [])"
proof
  assume k: "(Name c, Exec c) \<in> seen" and c: "c \<in> set (dedup as seen [])"
  from c have "c \<in> set (filter (\<lambda>x. (Name x, Exec x) = (Name c, Exec c)) (dedup as seen []))"
    by simp
  then show False using k by (simp only: dedup_filter if_True) simp
qed

lemma dedup_distinct: "distinct (map (\<lambda>c. (Name c, Exec c)) (dedup as seen []))"
proof (induction as arbitrary: seen)
  case Nil
  show ?case by simp
next
  case (Cons a as)
  show ?case
  proof (cases "(Name a, Exec a) \<in> seen")
    case True
    then show ?thesis using Cons.IH [of seen] by simp
  next
    case False
    have eq: "dedup (a # as) seen [] = a # dedup as (insert (Name a, Exec a) seen) []"
      using False dedup_append [of as "insert (Name a, Exec a) seen" "[a]"] by simp
    have "\<forall>c\<in>set (dedup as (insert (Name a, Exec a) seen) []). (Name c, Exec c) \<noteq> (Name a, Exec a)"
      using dedup_seen [of _ "insert (Name a, Exec a) seen" as] by (metis insertI1)
    then show ?thesis unfolding eq using Cons.IH [of "insert (Name a, Exec a) seen"] by auto
  qed
qed

lemma sort_key_Nil: "sort_key f xs = [] \<longleftrightarrow> xs = []"
  using length_sort [of f xs] by (metis length_0_conv)

lemma dedup_Nil: "dedup as {} [] = [] \<longleftrightarrow> as = []"
  by (cases as) (auto simp: dedup_append [of _ _ "[_]"])

lemma load_apps_scanned:
  assumes "scan_dirs e self (DESKTOP_PATHS e) ([], None) = Inr (as, loc)"
  shows "as = collected e self"
    and "loc = (if \<exists>d\<in>set (DESKTOP_PATHS e). path_exists e d = Inr True
                then Some ({}, []) else None)"
  using scan_dirs_Inr [OF assms] by (simp_all add: collected_def)

lemma collected_no_directory:
  "\<not> (\<exists>d\<in>set (DESKTOP_PATHS e). path_exists e d = Inr True) \<Longrightarrow> collected e self = []"
  by (auto simp: collected_def filter_empty_conv)

lemma load_apps_eq:
  assumes "scan_dirs e self (DESKTOP_PATHS e) ([], None) = Inr st"
  shows "load_apps e self =
     (if \<exists>d\<in>set (DESKTOP_PATHS e). path_exists e d = Inr True
      then Inr (self\<lparr>apps :=
             (if collected e self = [] then [fallback_entry]
              else sort_key (\<lambda>x. lower e (Name x)) (dedup (collected e self) {} []))\<rparr>)
      else Inl (UnboundLocalError ''filtered''))"
proof -
  obtain as loc where st: "st = (as, loc)" by (cases st)
  note sc = assms [unfolded st]
  note f = load_apps_scanned [OF sc]
  show ?thesis
    using collected_no_directory [of e self]
    by (auto simp: load_apps_def sc f Let_def dedup_Nil sort_key_Nil)
qed

lemma load_apps_raises:
  "scan_dirs e self (DESKTOP_PATHS e) ([], None) = Inl err \<Longrightarrow> load_apps e self = Inl err"
  by (simp add: load_apps_def)

lemma load_apps_Inr:
  assumes "load_apps e self = Inr self'"
  shows "self' = self\<lparr>apps :=
             (if collected e self = [] then [fallback_entry]
              else sort_key (\<lambda>x. lower e (Name x)) (dedup (collected e self) {} []))\<rparr>"
proof (cases "scan_dirs e self (DESKTOP_PATHS e) ([], None)")
  case (Inl err)
  then show ?thesis using assms by (simp add: load_apps_raises)
next
  case (Inr st)
  then show ?thesis using assms by (auto simp: load_apps_eq [OF Inr] split: if_splits)
qed

lemma load_apps_catalog:
  assumes "load_apps e self = Inr self'"
  shows "apps self' =
     (if collected e self = [] then [fallback_entry]
      else sort_key (\<lambda>x. lower e (Name x)) (dedup (collected e self) {} []))"
  by (subst load_apps_Inr [OF assms]) simp

lemma scan_dirs_no_directory:
  "\<forall>d\<in>set ds. path_exists e d = Inr False \<Longrightarrow> scan_dirs e self ds st = Inr st"
  by (induction ds arbitrary: st) (auto simp: split_paired_all)

lemma load_apps_no_directory:
  assumes "\<forall>d\<in>set (DESKTOP_PATHS e). path_exists e d = Inr False"
  shows "load_apps e self = Inl (UnboundLocalError ''filtered'')"
proof -
  have "\<not> (\<exists>d\<in>set (DESKTOP_PATHS e). path_exists e d = Inr True)"
    using assms by auto
  then show ?thesis
    using load_apps_eq [OF scan_dirs_no_directory [OF assms]] by simp
qed

lemma load_apps_all_rejected:
  "scan_dirs e self (DESKTOP_PATHS e) ([], None) = Inr st \<Longrightarrow>
   \<exists>d\<in>set (DESKTOP_PATHS e). path_exists e d = Inr True \<Longrightarrow> collected e self = [] \<Longrightarrow>
     load_apps e self = Inr (self\<lparr>apps := [fallback_entry]\<rparr>)"
  by (simp add: load_apps_eq)

lemma parse_desktop_self: "parse_desktop e self1 path = parse_desktop e self2 path"
  by (simp add: parse_desktop_def)

lemma parse_all_self: "parse_all e self1 ps = parse_all e self2 ps"
  by (induction ps) (auto simp: parse_desktop_self [of e self1 _ self2] split: sum.splits)

lemma scan_dirs_self: "scan_dirs e self1 ds st = scan_dirs e self2 ds st"
  by (induction ds arbitrary: st)
     (auto simp: split_paired_all parse_all_self [of e self1 _ self2] split: sum.splits)

lemma collected_self: "collected e self1 = collected e self2"
proof -
  have "parse_desktop e self1 = parse_desktop e self2"
    by (rule ext) (rule parse_desktop_self)
  then show ?thesis by (simp only: collected_def parsed_entries_def)
qed

lemma load_apps_self:
  "map_sum id apps (load_apps e self1) = map_sum id apps (load_apps e self2)"
proof (cases "scan_dirs e self1 (DESKTOP_PATHS e) ([], None)")
  case (Inl err)
  then show ?thesis
    using scan_dirs_self [of e self1 "DESKTOP_PATHS e" "([], None)" self2]
    by (simp add: load_apps_raises)
next
  case (Inr st)
  then have "scan_dirs e self2 (DESKTOP_PATHS e) ([], None) = Inr st"
    using scan_dirs_self [of e self1 "DESKTOP_PATHS e" "([], None)" self2] by simp
  then show ?thesis
    by (simp add: load_apps_eq [OF Inr] load_apps_eq [OF \<open>scan_dirs e self2 (DESKTOP_PATHS e) ([], None) = Inr st\<close>]
        collected_self [of e self1 self2])
qed

lemma parse_desktop_entry:
  assumes "read_cfg e path = Some [(str ''Desktop Entry'', entry)]"
      and "find_real_icon_path e (entry_get entry (str ''Icon'') []) = Inr rp"
  shows "parse_desktop e self path =
    (if lower e (entry_get entry (str ''NoDisplay'') (str ''false'')) = str ''true'' then Inr None
     else Inr (Some \<lparr>entry_id = stem path,
        Name = entry_get entry (str ''Name'') (stem path),
        Exec = exec_clean (entry_get entry (str ''Exec'') []),
        icon = icon_char e rp (exec_clean (entry_get entry (str ''Exec'') []))
                 (entry_get entry (str ''Icon'') []) (entry_get entry (str ''Name'') (stem path)),
        icon_path = rp,
        terminal = (lower e (entry_get entry (str ''Terminal'') (str ''false'')) = str ''true'' \<or>
                    lower e (entry_get entry (str ''Terminal'') (str ''false'')) = str ''1'')\<rparr>))"
  using assms by (simp add: parse_desktop_def Let_def)

lemma parse_desktop_hidden:
  assumes "read_cfg e path = Some [(str ''Desktop Entry'', entry)]"
      and "lower e (entry_get entry (str ''NoDisplay'') (str ''false'')) = str ''true''"
  shows "parse_desktop e self path = Inr None"
  using assms by (simp add: parse_desktop_def Let_def)

lemmas lex_defs = exec_clean_def shlex_split_def startswith_def str_def lex_whitespace_def
  lex_quote_def emit_def

lemmas glyph_defs = icon_char_def ICON_MAP_def startswith_def str_def upper_def
  ascii_lower_def ascii_to_upper_def

lemmas stem_defs = stem_def path_name_def path_parts_def rfind_def str_def Let_def

lemma icon_path_empty: "find_real_icon_path e [] = Inr None"
  by (simp add: find_real_icon_path_def)

lemma demo_case: "lower demo_env = ascii_lower" "to_upper demo_env = ascii_to_upper"
  by (simp_all add: demo_env_def)

lemma lower_flags:
  "ascii_lower (str ''false'') = str ''false''" "ascii_lower (str ''True'') = str ''true''"
  "str ''false'' \<noteq> str ''true''" "str ''false'' \<noteq> str ''1''"
  by (simp_all add: ascii_lower_def str_def)

lemma parse_zed:
  "parse_desktop demo_env self (str ''/usr/share/applications/zed.desktop'') =
     Inr (Some zed_entry)"
proof -
  have r: "read_cfg demo_env (str ''/usr/share/applications/zed.desktop'') =
      Some [(str ''Desktop Entry'', zed_section)]"
    by (simp add: demo_env_def)
  have k: "entry_get zed_section (str ''NoDisplay'') d = d"
     "entry_get zed_section (str ''Name'') d = str ''Zed''"
     "entry_get zed_section (str ''Exec'') d = str ''zed %F''"
     "entry_get zed_section (str ''Icon'') d = d"
     "entry_get zed_section (str ''Terminal'') d = str ''false''" for d
    by (simp_all add: entry_get_def zed_section_def str_def)
  have i: "find_real_icon_path demo_env (entry_get zed_section (str ''Icon'') []) = Inr None"
    by (simp only: k icon_path_empty)
  have x: "exec_clean (str ''zed %F'') = str ''zed''" by (simp add: lex_defs)
  have g: "icon_char demo_env None (str ''zed'') [] (str ''Zed'') = str ''Z''"
    by (simp add: glyph_defs demo_case)
  have s: "stem (str ''/usr/share/applications/zed.desktop'') = str ''zed''"
    by (simp add: stem_defs)
  show ?thesis
    by (simp add: parse_desktop_entry [OF r i] k x g s lower_flags demo_case zed_entry_def)
qed

lemma parse_blank:
  "parse_desktop demo_env self (str ''/usr/share/applications/blank.desktop'') =
     Inr (Some blank_entry)"
proof -
  have r: "read_cfg demo_env (str ''/usr/share/applications/blank.desktop'') =
      Some [(str ''Desktop Entry'', blank_section)]"
    by (simp add: demo_env_def str_def)
  have k: "entry_get blank_section (str ''NoDisplay'') d = d"
     "entry_get blank_section (str ''Name'') d = []"
     "entry_get blank_section (str ''Exec'') d = []"
     "entry_get blank_section (str ''Icon'') d = d"
     "entry_get blank_section (str ''Terminal'') d = d" for d
    by (simp_all add: entry_get_def blank_section_def str_def)
  have i: "find_real_icon_path demo_env (entry_get blank_section (str ''Icon'') []) = Inr None"
    by (simp only: k icon_path_empty)
  have x: "exec_clean [] = []" by (simp add: exec_clean_def)
  have g: "icon_char demo_env None [] [] [] = []" by (simp add: glyph_defs demo_case)
  have s: "stem (str ''/usr/share/applications/blank.desktop'') = str ''blank''"
    by (simp add: stem_defs)
  show ?thesis
    by (simp add: parse_desktop_entry [OF r i] k x g s lower_flags demo_case blank_entry_def)
qed

lemma parse_copy:
  "parse_desktop demo_env self (str ''/usr/share/applications/copy.desktop'') =
     Inr (Some copy_entry)"
proof -
  have r: "read_cfg demo_env (str ''/usr/share/applications/copy.desktop'') =
      Some [(str ''Desktop Entry'', copy_section)]"
    by (simp add: demo_env_def str_def)
  have k: "entry_get copy_section (str ''NoDisplay'') d = d"
     "entry_get copy_section (str ''Name'') d = str ''Zed''"
     "entry_get copy_section (str ''Exec'') d = str ''zed %U''"
     "entry_get copy_section (str ''Icon'') d = d"
     "entry_get copy_section (str ''Terminal'') d = d" for d
    by (simp_all add: entry_get_def copy_section_def str_def)
  have i: "find_real_icon_path demo_env (entry_get copy_section (str ''Icon'') []) = Inr None"
    by (simp only: k icon_path_empty)
  have x: "exec_clean (str ''zed %U'') = str ''zed''" by (simp add: lex_defs)
  have g: "icon_char demo_env None (str ''zed'') [] (str ''Zed'') = str ''Z''"
    by (simp add: glyph_defs demo_case)
  have s: "stem (str ''/usr/share/applications/copy.desktop'') = str ''copy''"
    by (simp add: stem_defs)
  show ?thesis
    by (simp add: parse_desktop_entry [OF r i] k x g s lower_flags demo_case copy_entry_def)
qed

lemma parse_hidden:
  "parse_desktop demo_env self (str ''/usr/share/applications/hidden.desktop'') = Inr None"
proof -
  have r: "read_cfg demo_env (str ''/usr/share/applications/hidden.desktop'') =
      Some [(str ''Desktop Entry'', hidden_section)]"
    by (simp add: demo_env_def str_def)
  have k: "entry_get hidden_section (str ''NoDisplay'') d = str ''True''" for d
    by (simp_all add: entry_get_def hidden_section_def str_def)
  show ?thesis
    by (rule parse_desktop_hidden [OF r]) (simp add: k lower_flags demo_case)
qed

lemma parse_apple:
  "parse_desktop demo_env self (str ''/home/user/.local/share/applications/zed.desktop'') =
     Inr (Some apple_entry)"
proof -
  have r: "read_cfg demo_env (str ''/home/user/.local/share/applications/zed.desktop'') =
      Some [(str ''Desktop Entry'', apple_section)]"
    by (simp add: demo_env_def str_def)
  have k: "entry_get apple_section (str ''NoDisplay'') d = d"
     "entry_get apple_section (str ''Name'') d = str ''apple''"
     "entry_get apple_section (str ''Exec'') d = str ''top''"
     "entry_get apple_section (str ''Icon'') d = d"
     "entry_get apple_section (str ''Terminal'') d = str ''True''" for d
    by (simp_all add: entry_get_def apple_section_def str_def)
  have i: "find_real_icon_path demo_env (entry_get apple_section (str ''Icon'') []) = Inr None"
    by (simp only: k icon_path_empty)
  have x: "exec_clean (str ''top'') = str ''top''" by (simp add: lex_defs)
  have g: "icon_char demo_env None (str ''top'') [] (str ''apple'') = str ''A''"
    by (simp add: glyph_defs demo_case)
  have s: "stem (str ''/home/user/.local/share/applications/zed.desktop'') = str ''zed''"
    by (simp add: stem_defs)
  show ?thesis
    by (simp add: parse_desktop_entry [OF r i] k x g s lower_flags demo_case apple_entry_def)
qed

lemma demo_dirs:
  "DESKTOP_PATHS demo_env = [sys_dir, user_dir]"
  "path_exists demo_env sys_dir = Inr True" "path_exists demo_env user_dir = Inr True"
  by (simp_all add: DESKTOP_PATHS_def demo_env_def joinpath_def sys_dir_def user_dir_def str_def)

lemma demo_glob:
  "glob_desktop demo_env sys_dir =
     Inr [str ''/usr/share/applications/zed.desktop'', str ''/usr/share/applications/blank.desktop'',
      str ''/usr/share/applications/copy.desktop'', str ''/usr/share/applications/hidden.desktop'']"
  "glob_desktop demo_env user_dir = Inr [str ''/home/user/.local/share/applications/zed.desktop'']"
proof -
  have "user_dir \<noteq> sys_dir" by (simp add: sys_dir_def user_dir_def str_def)
  then show "glob_desktop demo_env sys_dir =
     Inr [str ''/usr/share/applications/zed.desktop'', str ''/usr/share/applications/blank.desktop'',
      str ''/usr/share/applications/copy.desktop'', str ''/usr/share/applications/hidden.desktop'']"
    and "glob_desktop demo_env user_dir = Inr [str ''/home/user/.local/share/applications/zed.desktop'']"
    by (simp_all add: demo_env_def)
qed

lemma demo_parse_all:
  "parse_all demo_env self
     [str ''/usr/share/applications/zed.desktop'', str ''/usr/share/applications/blank.desktop'',
      str ''/usr/share/applications/copy.desktop'', str ''/usr/share/applications/hidden.desktop''] =
     Inr [zed_entry, blank_entry, copy_entry]"
  "parse_all demo_env self [str ''/home/user/.local/share/applications/zed.desktop''] =
     Inr [apple_entry]"
  by (simp_all only: parse_all.simps parse_zed parse_blank parse_copy parse_hidden parse_apple
      sum.case option.case)

lemma demo_scan:
  "scan_dirs demo_env self (DESKTOP_PATHS demo_env) ([], None) =
     Inr ([zed_entry, blank_entry, copy_entry, apple_entry], Some ({}, []))"
  by (simp only: demo_dirs scan_dirs.simps demo_glob demo_parse_all sum.case if_False not_True_eq_False
      append.simps)

lemma demo_collected: "collected demo_env self = [zed_entry, blank_entry, copy_entry, apple_entry]"
  using load_apps_scanned(1) [OF demo_scan] by simp

lemma demo_dedup:
  "dedup [zed_entry, blank_entry, copy_entry, apple_entry] {} [] =
     [zed_entry, blank_entry, apple_entry]"
  by (simp add: zed_entry_def blank_entry_def copy_entry_def apple_entry_def str_def)

lemma demo_sorted:
  "sort_key (\<lambda>x. ascii_lower (Name x)) [zed_entry, blank_entry, apple_entry] =
     [blank_entry, apple_entry, zed_entry]"
  by (simp add: zed_entry_def blank_entry_def apple_entry_def str_def ascii_lower_def)

lemma demo_catalog:
  "load_apps demo_env self = Inr (self\<lparr>apps := [blank_entry, apple_entry, zed_entry]\<rparr>)"
proof -
  have "\<exists>d\<in>set (DESKTOP_PATHS demo_env). path_exists demo_env d = Inr True"
    by (simp add: demo_dirs)
  moreover have "collected demo_env self \<noteq> []"
    by (simp only: demo_collected) simp
  ultimately show ?thesis
    by (simp only: load_apps_eq [OF demo_scan] if_True if_False demo_collected demo_dedup
        demo_case demo_sorted)
qed

lemma init_no_overrides:
  "path_exists e (joinpath (CONFIG_DIR e) (str ''icons.json'')) = Inr False \<Longrightarrow>
     init e = Inr new_app"
  by (simp add: init_def load_icon_overrides_def new_app_def)

lemma demo_init: "init demo_env = Inr new_app"
  by (rule init_no_overrides)
     (simp add: demo_env_def CONFIG_DIR_def joinpath_def sys_dir_def user_dir_def str_def)

lemma bare_init: "init bare_env = Inr new_app"
  by (rule init_no_overrides) (simp add: bare_env_def)

text \<open>
  C1. The build is to return the one-entry fallback catalog whenever nothing was parsed, also
  when no descriptor directory exists. On a system without either directory the constructor
  returns the application object \<open>new_app\<close>, and \<open>load_apps\<close> on it does not return:
  \<open>filtered\<close> is assigned only inside the loop over the existing directories, and
  \<open>sorted(filtered, ...)\<close> raises \<open>UnboundLocalError\<close> before the fallback line is
  reached.
\<close>

theorem load_apps_without_directories:
  "init bare_env = Inr new_app \<and>
   load_apps bare_env new_app = Inl (UnboundLocalError ''filtered'')"
proof -
  have "load_apps bare_env new_app = Inl (UnboundLocalError ''filtered'')"
    by (rule load_apps_no_directory) (simp add: bare_env_def)
  then show ?thesis by (simp add: bare_init)
qed

lemma env_json_load:
  "path_exists (e\<lparr>json_load := j\<rparr>) = path_exists e"
  "home (e\<lparr>json_load := j\<rparr>) = home e"
  "xdg_config_home (e\<lparr>json_load := j\<rparr>) = xdg_config_home e"
  "read_cfg (e\<lparr>json_load := j\<rparr>) = read_cfg e"
  "glob_desktop (e\<lparr>json_load := j\<rparr>) = glob_desktop e"
  "lower (e\<lparr>json_load := j\<rparr>) = lower e"
  "to_upper (e\<lparr>json_load := j\<rparr>) = to_upper e"
  by simp_all

lemma find_real_icon_path_json:
  "find_real_icon_path (e\<lparr>json_load := j\<rparr>) n = find_real_icon_path e n"
  by (simp only: find_real_icon_path_def search_direct_def search_subdirs_def probe_def
      search_roots_def env_json_load)

lemma icon_char_json: "icon_char (e\<lparr>json_load := j\<rparr>) = icon_char e"
  by (intro ext) (simp only: icon_char_def upper_def env_json_load)

lemma parse_desktop_json:
  "parse_desktop (e\<lparr>json_load := j\<rparr>) self1 path = parse_desktop e self2 path"
  by (simp only: parse_desktop_def find_real_icon_path_json icon_char_json env_json_load)

lemma parse_all_json: "parse_all (e\<lparr>json_load := j\<rparr>) self1 ps = parse_all e self2 ps"
  by (induction ps)
     (auto simp: parse_desktop_json [where ?self2.0 = self2] split: sum.splits)

lemma scan_dirs_json: "scan_dirs (e\<lparr>json_load := j\<rparr>) self1 ds st = scan_dirs e self2 ds st"
  by (induction ds arbitrary: st)
     (auto simp: split_paired_all parse_all_json [where ?self2.0 = self2] split: sum.splits)

lemma collected_json: "collected (e\<lparr>json_load := j\<rparr>) self1 = collected e self2"
proof -
  have "parse_desktop (e\<lparr>json_load := j\<rparr>) self1 = parse_desktop e self2"
    by (rule ext) (rule parse_desktop_json)
  then show ?thesis
    by (simp only: collected_def parsed_entries_def DESKTOP_PATHS_def env_json_load)
qed

lemma DESKTOP_PATHS_json: "DESKTOP_PATHS (e\<lparr>json_load := j\<rparr>) = DESKTOP_PATHS e"
  by (simp add: DESKTOP_PATHS_def)

lemma CONFIG_DIR_json: "CONFIG_DIR (e\<lparr>json_load := j\<rparr>) = CONFIG_DIR e"
  by (cases "xdg_config_home e") (simp_all add: CONFIG_DIR_def)

lemma load_apps_json:
  "map_sum id apps (load_apps (e\<lparr>json_load := j\<rparr>) self1) = map_sum id apps (load_apps e self2)"
proof (cases "scan_dirs e self2 (DESKTOP_PATHS e) ([], None)")
  case (Inl err)
  have "scan_dirs (e\<lparr>json_load := j\<rparr>) self1 (DESKTOP_PATHS (e\<lparr>json_load := j\<rparr>)) ([], None) =
      Inl err"
    by (simp only: DESKTOP_PATHS_json scan_dirs_json [where ?self2.0 = self2] Inl)
  then show ?thesis using Inl by (simp add: load_apps_raises)
next
  case (Inr st)
  have s: "scan_dirs (e\<lparr>json_load := j\<rparr>) self1 (DESKTOP_PATHS (e\<lparr>json_load := j\<rparr>)) ([], None) =
      Inr st"
    by (simp only: DESKTOP_PATHS_json scan_dirs_json [where ?self2.0 = self2] Inr)
  have c: "collected (e\<lparr>json_load := j\<rparr>) self1 = collected e self2"
    by (rule collected_json)
  show ?thesis
    by (simp add: load_apps_eq [OF Inr] load_apps_eq [OF s] c DESKTOP_PATHS_json env_json_load)
qed

lemma init_json:
  "map_sum id (\<lambda>s. ()) (init (e\<lparr>json_load := j\<rparr>)) = map_sum id (\<lambda>s. ()) (init e)"
  by (cases "path_exists e (joinpath (CONFIG_DIR e) (str ''icons.json''))")
     (simp_all add: init_def load_icon_overrides_def CONFIG_DIR_json)



text \<open>
  C4. Ids are not unique in a catalog: the two files named \<open>zed.desktop\<close> of \<open>demo_env\<close>,
  one in each directory, differ in name and command, so both are kept, with the same id.
  What deduplication gives is that no two entries of a catalog share the key \<open>(Name, Exec)\<close>.
\<close>

theorem catalog_ids_repeat:
  "load_apps demo_env new_app =
     Inr (new_app\<lparr>apps := [blank_entry, apple_entry, zed_entry]\<rparr>) \<and>
   \<not> distinct (map entry_id [blank_entry, apple_entry, zed_entry])"
  by (simp only: demo_catalog) (simp add: apple_entry_def zed_entry_def)

text \<open>C4, as amended: in a catalog no two entries have the same \<open>(Name, Exec)\<close>.\<close>

theorem load_apps_keys_distinct:
  assumes "load_apps e self = Inr self'"
  shows "distinct (map (\<lambda>a. (Name a, Exec a)) (apps self'))"
proof (cases "collected e self = []")
  case True
  then show ?thesis using load_apps_catalog [OF assms] by simp
next
  case False
  then have cat: "apps self' = sort_key (\<lambda>x. lower e (Name x)) (dedup (collected e self) {} [])"
    using load_apps_catalog [OF assms] by simp
  have "mset (map (\<lambda>a. (Name a, Exec a)) (apps self')) =
        mset (map (\<lambda>a. (Name a, Exec a)) (dedup (collected e self) {} []))"
    by (simp add: cat)
  then show ?thesis
    using dedup_distinct [of "collected e self" "{}"] by (metis mset_eq_imp_distinct_iff)
qed

theorem load_apps_keys_distinct_witness:
  "distinct (map (\<lambda>a. (Name a, Exec a)) [blank_entry, apple_entry, zed_entry])"
  using load_apps_keys_distinct [OF demo_catalog, of new_app] by simp



lemma load_apps_Inr_apps:
  assumes "load_apps e self = Inr self'"
  shows "self' = self\<lparr>apps := apps self'\<rparr>"
proof -
  obtain X where x: "self' = self\<lparr>apps := X\<rparr>"
    using load_apps_Inr [OF assms] by blast
  show ?thesis by (simp add: x)
qed

text \<open>
  C9. For a fixed environment the outcome of the build (the catalog, or the exception) does
  not depend on the state of the application object it is run on, and a second build on the
  state the first one returned returns that state again.
\<close>

theorem load_apps_deterministic:
  "map_sum id apps (load_apps e self1) = map_sum id apps (load_apps e self2) \<and>
   (\<forall>self'. load_apps e self1 = Inr self' \<longrightarrow> load_apps e self' = Inr self')"
proof -
  have 2: "load_apps e self' = Inr self'" if r: "load_apps e self1 = Inr self'" for self'
  proof -
    have "map_sum id apps (load_apps e self') = map_sum id apps (load_apps e self1)"
      by (rule load_apps_self)
    then obtain s where s: "load_apps e self' = Inr s" and a: "apps s = apps self'"
      using r by (cases "load_apps e self'") auto
    have "s = self'\<lparr>apps := apps s\<rparr>"
      by (rule load_apps_Inr_apps [OF s])
    then have "s = self'" by (simp add: a)
    then show ?thesis using s by simp
  qed
  show ?thesis using load_apps_self 2 by blast
qed

theorem load_apps_deterministic_witness:
  "load_apps demo_env (new_app\<lparr>apps := [blank_entry, apple_entry, zed_entry]\<rparr>) =
     Inr (new_app\<lparr>apps := [blank_entry, apple_entry, zed_entry]\<rparr>)"
  using load_apps_deterministic [of demo_env new_app new_app]
  by (simp add: demo_catalog)

text \<open>
  C10. The icon overrides loaded at startup are never consulted: the outcome of the build
  and the entry parsed from a file are the same for every value of \<open>icons_override\<close>, and
  the outcome of constructing the object and building its catalog (\<open>startup\<close>) is the same
  whatever \<open>json.load\<close> makes of the overrides file.
\<close>

theorem icon_overrides_never_consulted:
  "map_sum id apps (load_apps e (self\<lparr>icons_override := ov\<rparr>)) = map_sum id apps (load_apps e self) \<and>
   parse_desktop e (self\<lparr>icons_override := ov\<rparr>) path = parse_desktop e self path \<and>
   map_sum id apps (startup (e\<lparr>json_load := j\<rparr>)) = map_sum id apps (startup e)"
proof -
  have 2: "map_sum id apps (startup (e\<lparr>json_load := j\<rparr>)) = map_sum id apps (startup e)"
  proof (cases "init e")
    case (Inl err)
    then have "init (e\<lparr>json_load := j\<rparr>) = Inl err"
      using init_json [of j e] by (cases "init (e\<lparr>json_load := j\<rparr>)") auto
    then show ?thesis using Inl by (simp add: startup_def)
  next
    case (Inr s)
    then obtain s' where s': "init (e\<lparr>json_load := j\<rparr>) = Inr s'"
      using init_json [of j e] by (cases "init (e\<lparr>json_load := j\<rparr>)") auto
    show ?thesis
      using load_apps_json [where ?self1.0 = s' and ?self2.0 = s and e = e and j = j]
      by (simp add: startup_def Inr s')
  qed
  show ?thesis using load_apps_self 2 parse_desktop_self by blast
qed

theorem icon_overrides_never_consulted_witness:
  "map_sum id apps (load_apps demo_env (new_app\<lparr>icons_override := [(str ''zed'', str ''!'')]\<rparr>)) =
     Inr [blank_entry, apple_entry, zed_entry]"
  using icon_overrides_never_consulted
    [where e = demo_env and self = new_app and ov = "[(str ''zed'', str ''!'')]"]
  by (simp add: demo_catalog)

section \<open>Properties of the descriptor parser\<close>

lemma first_some_find:
  "first_some (\<lambda>(k, v). if P k then Some v else None) xs =
     map_option snd (find (\<lambda>(k, v). P k) xs)"
  by (induction xs) auto

lemma ICON_MAP_values: "(k, v) \<in> set ICON_MAP \<Longrightarrow> v \<noteq> [] \<and> v \<noteq> str ''?''"
  by (auto simp: ICON_MAP_def str_def)

lemma upper_Nil: "upper e s = [] \<longleftrightarrow> s = []"
  by (cases s) (simp_all add: upper_def)

lemma icon_char_resolved: "p \<noteq> [] \<Longrightarrow> icon_char e (Some p) x i name = str ''?''"
  by (simp add: icon_char_def)

lemma icon_char_search:
  "icon_char e None x i name =
     (case find (\<lambda>(k, v). contains k (lower e (x @ str '' '' @ i))) ICON_MAP of
        None \<Rightarrow> upper e (take 1 name)
      | Some (k, v) \<Rightarrow> v)"
proof (cases "find (\<lambda>(k, v). contains k (lower e (x @ str '' '' @ i))) ICON_MAP")
  case None
  then show ?thesis by (simp add: icon_char_def Let_def first_some_find)
next
  case (Some kv)
  obtain k v where kv: "kv = (k, v)" by (cases kv)
  have "(k, v) \<in> set ICON_MAP" using Some kv by (auto simp: find_Some_iff in_set_conv_nth)
  then have "v \<noteq> str ''?''" using ICON_MAP_values by blast
  then show ?thesis using Some kv by (simp add: icon_char_def Let_def first_some_find)
qed

lemma icon_char_nonempty:
  assumes "name \<noteq> []"
  shows "icon_char e p x i name \<noteq> []"
proof (cases "p = None \<or> p = Some []")
  case False
  then obtain y where "p = Some y" and "y \<noteq> []" by (cases p) auto
  then show ?thesis by (simp add: icon_char_def str_def)
next
  case True
  show ?thesis
  proof (cases "find (\<lambda>(k, v). contains k (lower e (x @ str '' '' @ i))) ICON_MAP")
    case None
    then show ?thesis using True assms
      by (auto simp: icon_char_def Let_def first_some_find upper_Nil)
  next
    case (Some kv)
    obtain k v where kv: "kv = (k, v)" by (cases kv)
    have "(k, v) \<in> set ICON_MAP" using Some kv by (auto simp: find_Some_iff in_set_conv_nth)
    then have "v \<noteq> [] \<and> v \<noteq> str ''?''" by (rule ICON_MAP_values)
    then show ?thesis using True Some kv
      by (auto simp: icon_char_def Let_def first_some_find)
  qed
qed

lemma parse_desktop_Some:
  assumes "read_cfg e path = Some cfg" and "map_of cfg (str ''Desktop Entry'') = Some entry"
      and "parse_desktop e self path = Inr (Some a)"
  shows "\<exists>rp. find_real_icon_path e (entry_get entry (str ''Icon'') []) = Inr rp \<and>
    a = \<lparr>entry_id = stem path,
        Name = entry_get entry (str ''Name'') (stem path),
        Exec = exec_clean (entry_get entry (str ''Exec'') []),
        icon = icon_char e rp (exec_clean (entry_get entry (str ''Exec'') []))
                 (entry_get entry (str ''Icon'') []) (entry_get entry (str ''Name'') (stem path)),
        icon_path = rp,
        terminal = (lower e (entry_get entry (str ''Terminal'') (str ''false'')) = str ''true'' \<or>
                    lower e (entry_get entry (str ''Terminal'') (str ''false'')) = str ''1'')\<rparr>"
  using assms by (auto simp: parse_desktop_def Let_def split: if_splits sum.splits)

lemma AppIcon_glyph: "icon_glyph (icon_of_entry a) = (if icon a = [] then str ''?'' else icon a)"
  by (simp add: icon_of_entry_def AppIcon_def)

lemma icon_case: "lower icon_env = ascii_lower" "to_upper icon_env = ascii_to_upper"
  by (simp_all add: icon_env_def)

lemma firefox_stem: "stem (str ''firefox'') = str ''firefox''"
  by (simp add: stem_defs)

lemma firefox_relative: "\<not> is_absolute (str ''firefox'')"
  by (simp add: is_absolute_def path_root_def startswith_def str_def)

lemma icon_env_direct:
  "search_direct icon_env (str ''firefox'') = Inr (Some (str ''/usr/share/pixmaps/firefox.svg''))"
  by (simp add: search_direct_def search_roots_def extensions_def probe_def joinpath_def
      icon_env_def sys_dir_def str_def)

lemma icon_env_firefox:
  "find_real_icon_path icon_env (str ''firefox'') =
     Inr (Some (str ''/usr/share/pixmaps/firefox.svg''))"
proof -
  have "str ''firefox'' \<noteq> []" by (simp add: str_def)
  then show ?thesis
    by (simp add: find_real_icon_path_def firefox_relative firefox_stem icon_env_direct)
qed

lemma parse_firefox:
  "parse_desktop icon_env self (str ''/usr/share/applications/firefox.desktop'') =
     Inr (Some firefox_entry)"
proof -
  have r: "read_cfg icon_env (str ''/usr/share/applications/firefox.desktop'') =
      Some [(str ''Desktop Entry'', firefox_section)]"
    by (simp add: icon_env_def)
  have k: "entry_get firefox_section (str ''NoDisplay'') d = d"
     "entry_get firefox_section (str ''Name'') d = str ''Firefox''"
     "entry_get firefox_section (str ''Exec'') d = str ''firefox %u''"
     "entry_get firefox_section (str ''Icon'') d = str ''firefox''"
     "entry_get firefox_section (str ''Terminal'') d = d" for d
    by (simp_all add: entry_get_def firefox_section_def str_def)
  have i: "find_real_icon_path icon_env (entry_get firefox_section (str ''Icon'') []) =
      Inr (Some (str ''/usr/share/pixmaps/firefox.svg''))"
    by (simp only: k icon_env_firefox)
  have x: "exec_clean (str ''firefox %u'') = str ''firefox''" by (simp add: lex_defs)
  have p: "str ''/usr/share/pixmaps/firefox.svg'' \<noteq> []" by (simp add: str_def)
  have s: "stem (str ''/usr/share/applications/firefox.desktop'') = str ''firefox''"
    by (simp add: stem_defs)
  show ?thesis
    by (simp add: parse_desktop_entry [OF r i] k x icon_char_resolved [OF p] s lower_flags
        icon_case firefox_entry_def)
qed

lemma kitty_keyword:
  "find (\<lambda>(k, v). contains k (lower icon_env (str ''kitty'' @ str '' '' @ []))) ICON_MAP =
     Some (str ''kitty'', [128049])"
  by (simp add: ICON_MAP_def icon_env_def ascii_lower_def str_def startswith_def)

lemma parse_kitty:
  "parse_desktop icon_env self (str ''/usr/share/applications/kitty.desktop'') =
     Inr (Some kitty_entry)"
proof -
  have r: "read_cfg icon_env (str ''/usr/share/applications/kitty.desktop'') =
      Some [(str ''Desktop Entry'', kitty_section)]"
    by (simp add: icon_env_def str_def)
  have k: "entry_get kitty_section (str ''NoDisplay'') d = d"
     "entry_get kitty_section (str ''Name'') d = str ''Kitty''"
     "entry_get kitty_section (str ''Exec'') d = str ''kitty''"
     "entry_get kitty_section (str ''Icon'') d = d"
     "entry_get kitty_section (str ''Terminal'') d = d" for d
    by (simp_all add: entry_get_def kitty_section_def str_def)
  have i: "find_real_icon_path icon_env (entry_get kitty_section (str ''Icon'') []) = Inr None"
    by (simp only: k icon_path_empty)
  have x: "exec_clean (str ''kitty'') = str ''kitty''" by (simp add: lex_defs)
  have g: "icon_char icon_env None (str ''kitty'') [] (str ''Kitty'') = [128049]"
    by (simp only: icon_char_search kitty_keyword) simp
  have s: "stem (str ''/usr/share/applications/kitty.desktop'') = str ''kitty''"
    by (simp add: stem_defs)
  show ?thesis
    by (simp add: parse_desktop_entry [OF r i] k x g s lower_flags icon_case kitty_entry_def)
qed

lemma blank_keyword:
  "find (\<lambda>(k, v). contains k (lower demo_env ([] @ str '' '' @ []))) ICON_MAP = None"
  by (simp add: ICON_MAP_def demo_env_def ascii_lower_def str_def startswith_def)

text \<open>
  C2. The glyph of an accepted descriptor is not always populated: with no icon path and no
  keyword matched it is \<open>name[:1].upper()\<close>, which is the empty string for an empty
  \<open>Name\<close>; \<open>blank.desktop\<close> of \<open>demo_env\<close> is parsed to an entry with an empty glyph.
\<close>

theorem blank_name_empty_glyph:
  "parse_desktop demo_env new_app (str ''/usr/share/applications/blank.desktop'') =
     Inr (Some blank_entry) \<and> icon blank_entry = []"
  by (simp only: parse_blank) (simp add: blank_entry_def)

text \<open>
  C2, as amended. For an accepted descriptor the glyph is \<open>?\<close> when an icon path was
  resolved. With no icon path it is the glyph of the first key of \<open>ICON_MAP\<close> that occurs
  in the lowercased concatenation of the command, a blank and the raw icon name, and the
  first character of the name uppercased when no key occurs. It is non-empty whenever the
  name is; with no icon path, no key and an empty name it is empty. The glyph \<open>AppIcon\<close>
  shows for the entry is never empty: its constructor puts the placeholder \<open>?\<close> in place
  of an empty glyph.
\<close>

theorem parse_desktop_icon:
  assumes "read_cfg e path = Some cfg" and "map_of cfg (str ''Desktop Entry'') = Some entry"
      and "parse_desktop e self path = Inr (Some a)"
  shows "(\<forall>p. icon_path a = Some p \<and> p \<noteq> [] \<longrightarrow> icon a = str ''?'') \<and>
         (icon_path a = None \<longrightarrow>
            icon a =
              (case find (\<lambda>(k, v). contains k
                            (lower e (Exec a @ str '' '' @ entry_get entry (str ''Icon'') [])))
                      ICON_MAP of
                 None \<Rightarrow> upper e (take 1 (Name a))
               | Some (k, v) \<Rightarrow> v)) \<and>
         (Name a \<noteq> [] \<longrightarrow> icon a \<noteq> []) \<and>
         (icon_path a = None \<and>
          find (\<lambda>(k, v). contains k
                  (lower e (Exec a @ str '' '' @ entry_get entry (str ''Icon'') []))) ICON_MAP = None \<and>
          Name a = [] \<longrightarrow>
            icon a = [] \<and> icon_glyph (icon_of_entry a) = str ''?'') \<and>
         icon_glyph (icon_of_entry a) \<noteq> []"
proof -
  from parse_desktop_Some [OF assms] obtain rp where
    a: "a = \<lparr>entry_id = stem path,
        Name = entry_get entry (str ''Name'') (stem path),
        Exec = exec_clean (entry_get entry (str ''Exec'') []),
        icon = icon_char e rp (exec_clean (entry_get entry (str ''Exec'') []))
                 (entry_get entry (str ''Icon'') []) (entry_get entry (str ''Name'') (stem path)),
        icon_path = rp,
        terminal = (lower e (entry_get entry (str ''Terminal'') (str ''false'')) = str ''true'' \<or>
                    lower e (entry_get entry (str ''Terminal'') (str ''false'')) = str ''1'')\<rparr>"
    by blast
  have ic: "icon a = icon_char e (icon_path a) (Exec a) (entry_get entry (str ''Icon'') []) (Name a)"
    using arg_cong [OF a, of icon] arg_cong [OF a, of icon_path] arg_cong [OF a, of Exec]
      arg_cong [OF a, of Name]
    by simp
  have 1: "\<forall>p. icon_path a = Some p \<and> p \<noteq> [] \<longrightarrow> icon a = str ''?''"
    by (simp only: ic) (simp add: icon_char_resolved)
  have 2: "icon a =
              (case find (\<lambda>(k, v). contains k
                            (lower e (Exec a @ str '' '' @ entry_get entry (str ''Icon'') [])))
                      ICON_MAP of
                 None \<Rightarrow> upper e (take 1 (Name a))
               | Some (k, v) \<Rightarrow> v)"
    if "icon_path a = None"
    using icon_char_search [of e "Exec a" "entry_get entry (str ''Icon'') []" "Name a"] that
    by (simp only: ic)
  have 3: "Name a \<noteq> [] \<longrightarrow> icon a \<noteq> []"
    by (simp only: ic) (simp add: icon_char_nonempty)
  have 5: "icon_glyph (icon_of_entry a) \<noteq> []"
    by (simp add: AppIcon_glyph str_def)
  have 4: "icon a = [] \<and> icon_glyph (icon_of_entry a) = str ''?''"
    if "icon_path a = None" and "find (\<lambda>(k, v). contains k
                  (lower e (Exec a @ str '' '' @ entry_get entry (str ''Icon'') []))) ICON_MAP = None"
      and "Name a = []"
  proof -
    have "icon a = []" using 2 [OF that(1)] that(2,3) by (simp add: upper_def)
    then show ?thesis by (simp add: AppIcon_glyph)
  qed
  show ?thesis using 1 2 3 4 5 by blast
qed

theorem parse_desktop_icon_witness:
  "parse_desktop demo_env new_app (str ''/usr/share/applications/blank.desktop'') =
     Inr (Some blank_entry) \<and>
   icon blank_entry = [] \<and> icon_glyph (icon_of_entry blank_entry) = str ''?'' \<and>
   parse_desktop icon_env new_app (str ''/usr/share/applications/kitty.desktop'') =
     Inr (Some kitty_entry) \<and>
   icon kitty_entry = [128049] \<and>
   parse_desktop icon_env new_app (str ''/usr/share/applications/firefox.desktop'') =
     Inr (Some firefox_entry) \<and>
   icon firefox_entry = str ''?'' \<and> icon_glyph (icon_of_entry firefox_entry) \<noteq> []"
proof -
  have rb: "read_cfg demo_env (str ''/usr/share/applications/blank.desktop'') =
      Some [(str ''Desktop Entry'', blank_section)]"
    by (simp add: demo_env_def str_def)
  have mb: "map_of [(str ''Desktop Entry'', blank_section)] (str ''Desktop Entry'') =
      Some blank_section"
    by simp
  have pb: "icon_path blank_entry = None" "Name blank_entry = []" "Exec blank_entry = []"
    by (simp_all add: blank_entry_def)
  have ib: "entry_get blank_section (str ''Icon'') [] = []"
    by (simp add: entry_get_def blank_section_def str_def)
  have kb: "find (\<lambda>(k, v). contains k
      (lower demo_env (Exec blank_entry @ str '' '' @ entry_get blank_section (str ''Icon'') [])))
      ICON_MAP = None"
    by (simp only: pb ib blank_keyword)
  have blank: "icon blank_entry = [] \<and> icon_glyph (icon_of_entry blank_entry) = str ''?''"
    using parse_desktop_icon [OF rb mb parse_blank [of new_app]] pb(1,2) kb by blast
  have rk: "read_cfg icon_env (str ''/usr/share/applications/kitty.desktop'') =
      Some [(str ''Desktop Entry'', kitty_section)]"
    by (simp add: icon_env_def str_def)
  have mk: "map_of [(str ''Desktop Entry'', kitty_section)] (str ''Desktop Entry'') =
      Some kitty_section"
    by simp
  have pk: "icon_path kitty_entry = None" "Exec kitty_entry = str ''kitty''"
    by (simp_all add: kitty_entry_def)
  have ik: "entry_get kitty_section (str ''Icon'') [] = []"
    by (simp add: entry_get_def kitty_section_def str_def)
  have "icon kitty_entry =
      (case find (\<lambda>(k, v). contains k
          (lower icon_env (Exec kitty_entry @ str '' '' @ entry_get kitty_section (str ''Icon'') [])))
          ICON_MAP of
         None \<Rightarrow> upper icon_env (take 1 (Name kitty_entry))
       | Some (k, v) \<Rightarrow> v)"
    using parse_desktop_icon [OF rk mk parse_kitty [of new_app]] pk(1) by blast
  then have kitty: "icon kitty_entry = [128049]"
    by (simp only: pk ik kitty_keyword) simp
  have rf: "read_cfg icon_env (str ''/usr/share/applications/firefox.desktop'') =
      Some [(str ''Desktop Entry'', firefox_section)]"
    by (simp add: icon_env_def)
  have mf: "map_of [(str ''Desktop Entry'', firefox_section)] (str ''Desktop Entry'') =
      Some firefox_section"
    by simp
  have pf: "icon_path firefox_entry = Some (str ''/usr/share/pixmaps/firefox.svg'')"
    by (simp add: firefox_entry_def)
  have nf: "str ''/usr/share/pixmaps/firefox.svg'' \<noteq> []" by (simp add: str_def)
  have firefox: "icon firefox_entry = str ''?'' \<and> icon_glyph (icon_of_entry firefox_entry) \<noteq> []"
    using parse_desktop_icon [OF rf mf parse_firefox [of new_app]] pf nf by blast
  show ?thesis
    using blank kitty firefox parse_blank [of new_app] parse_kitty [of new_app]
      parse_firefox [of new_app]
    by blast
qed

lemma split_ws_acc_word:
  "\<forall>c\<in>set x. \<not> isspace c \<Longrightarrow> split_ws_acc w (x @ r) = split_ws_acc (w @ x) r"
  by (induction x arbitrary: w) auto

lemma split_ws_join:
  "\<forall>p\<in>set ps. \<forall>c\<in>set p. \<not> isspace c \<Longrightarrow>
     split_ws_acc [] (join [32] ps) = filter (\<lambda>p. p \<noteq> []) ps"
proof (induction "[32::nat]" ps rule: join.induct)
  case 1
  show ?case by simp
next
  case (2 x)
  then show ?case using split_ws_acc_word [of x "[]" "[]"] by simp
next
  case (3 x y ys)
  have sp: "isspace 32" by (simp add: isspace_def)
  have "split_ws_acc [] (x @ 32 # join [32] (y # ys)) = split_ws_acc x (32 # join [32] (y # ys))"
    using split_ws_acc_word [of x "[]" "32 # join [32] (y # ys)"] 3(2) by simp
  then show ?case using 3 sp by simp
qed

lemma set_strip: "set (strip s) \<subseteq> set s"
proof -
  have "set (strip s) = set (dropWhile isspace (rev (dropWhile isspace s)))"
    by (simp add: strip_def)
  also have "\<dots> \<subseteq> set (rev (dropWhile isspace s))"
    by (auto dest: set_dropWhileD)
  also have "\<dots> \<subseteq> set s"
    by (auto dest: set_dropWhileD)
  finally show ?thesis .
qed

lemma split_first_sep: "sep \<notin> set (split_first sep s)"
  by (auto simp: split_first_def dest: set_takeWhileD)

lemma shlex_split_Nil: "shlex_split [] = Inr []"
  by (simp add: shlex_split_def)

lemma exec_clean_ok:
  "shlex_split raw = Inr ps \<Longrightarrow>
     exec_clean raw = join (str '' '') (filter (\<lambda>p. \<not> startswith p (str ''%'')) ps)"
  by (cases "raw = []") (auto simp: exec_clean_def shlex_split_Nil)

lemma exec_clean_failed:
  "shlex_split raw = Inl err \<Longrightarrow> exec_clean raw = strip (split_first 37 raw)"
  by (cases "raw = []") (auto simp: exec_clean_def shlex_split_Nil)

lemma exec_clean_example: "exec_clean (str ''app %U --flag %f'') = str ''app --flag''"
  by (simp add: lex_defs)

text \<open>
  C7. A token that does not begin with \<open>%\<close> survives whole, and the tokens are joined
  without quoting, so a placeholder after a quoted blank ends up as a word of the command:
  the exec string \<open>app "x %U"\<close> is normalised to \<open>app x %U\<close>, whose third word, under
  either way \<open>launch_app\<close> splits it, is \<open>%U\<close>.
\<close>

theorem quoted_placeholder_survives:
  "exec_clean (str ''app '' @ [34] @ str ''x %U'' @ [34]) = str ''app x %U'' \<and>
   split_ws (str ''app x %U'') = [str ''app'', str ''x'', str ''%U''] \<and>
   shlex_split (str ''app x %U'') = Inr [str ''app'', str ''x'', str ''%U''] \<and>
   startswith (str ''%U'') (str ''%'')"
  by (simp add: lex_defs split_ws_def isspace_def)

text \<open>
  C7, as amended. When the exec string tokenizes, the command is the tokens not beginning
  with \<open>%\<close> joined by single spaces, and none of the joined tokens begins with \<open>%\<close>; if
  moreover no surviving token contains whitespace, no whitespace-separated word of the
  command begins with \<open>%\<close>. When tokenization fails, the command is the raw string cut at
  its first \<open>%\<close> and stripped, and contains no \<open>%\<close> at all. The exec string
  \<open>app %U --flag %f\<close> is normalised to \<open>app --flag\<close>.
\<close>

theorem exec_clean_tokens:
  "(\<forall>ps. shlex_split raw = Inr ps \<longrightarrow>
      exec_clean raw = join (str '' '') (filter (\<lambda>p. \<not> startswith p (str ''%'')) ps) \<and>
      (\<forall>p\<in>set (filter (\<lambda>p. \<not> startswith p (str ''%'')) ps). \<not> startswith p (str ''%'')) \<and>
      ((\<forall>p\<in>set ps. \<not> startswith p (str ''%'') \<longrightarrow> (\<forall>c\<in>set p. \<not> isspace c)) \<longrightarrow>
         (\<forall>t\<in>set (split_ws (exec_clean raw)). \<not> startswith t (str ''%'')))) \<and>
   (\<forall>err. shlex_split raw = Inl err \<longrightarrow>
      exec_clean raw = strip (split_first 37 raw) \<and> 37 \<notin> set (exec_clean raw)) \<and>
   exec_clean (str ''app %U --flag %f'') = str ''app --flag''"
proof -
  have ok: "(\<forall>t\<in>set (split_ws (exec_clean raw)). \<not> startswith t (str ''%''))"
    if s: "shlex_split raw = Inr ps"
      and w: "\<forall>p\<in>set ps. \<not> startswith p (str ''%'') \<longrightarrow> (\<forall>c\<in>set p. \<not> isspace c)" for ps
  proof -
    have sp: "str '' '' = [32]" by (simp add: str_def)
    have "\<forall>p\<in>set (filter (\<lambda>p. \<not> startswith p (str ''%'')) ps). \<forall>c\<in>set p. \<not> isspace c"
      using w by auto
    then have "split_ws (exec_clean raw) =
        filter (\<lambda>p. p \<noteq> []) (filter (\<lambda>p. \<not> startswith p (str ''%'')) ps)"
      by (simp only: exec_clean_ok [OF s] sp split_ws_def split_ws_join)
    then show ?thesis by simp
  qed
  have failed: "exec_clean raw = strip (split_first 37 raw) \<and> 37 \<notin> set (exec_clean raw)"
    if "shlex_split raw = Inl err" for err
    using exec_clean_failed [OF that] set_strip [of "split_first 37 raw"] split_first_sep [of 37 raw]
    by auto
  have flt: "\<forall>p\<in>set (filter (\<lambda>p. \<not> startswith p (str ''%'')) ps). \<not> startswith p (str ''%'')"
    for ps by simp
  show ?thesis
    using ok failed exec_clean_ok [of raw] exec_clean_example flt by blast
qed

theorem exec_clean_tokens_witness:
  "exec_clean (str ''zed %F'') = join (str '' '') [str ''zed''] \<and>
   split_ws (exec_clean (str ''zed %F'')) = [str ''zed''] \<and>
   exec_clean (str ''app '' @ [34] @ str ''x %U'') = strip (split_first 37 (str ''app '' @ [34] @ str ''x %U'')) \<and>
   37 \<notin> set (exec_clean (str ''app '' @ [34] @ str ''x %U''))"
proof -
  have s1: "shlex_split (str ''zed %F'') = Inr [str ''zed'', str ''%F'']"
    by (simp add: lex_defs)
  have s2: "shlex_split (str ''app '' @ [34] @ str ''x %U'') = Inl (ValueError ''No closing quotation'')"
    by (simp add: lex_defs)
  have f: "filter (\<lambda>p. \<not> startswith p (str ''%'')) [str ''zed'', str ''%F''] = [str ''zed'']"
    by (simp add: startswith_def str_def)
  have w: "split_ws (join (str '' '') [str ''zed'']) = [str ''zed'']"
    by (simp add: split_ws_def str_def isspace_def)
  note t1 = exec_clean_tokens [of "str ''zed %F''", THEN conjunct1, THEN spec,
      of "[str ''zed'', str ''%F'']", THEN mp, OF s1]
  note t2 = exec_clean_tokens [of "str ''app '' @ [34] @ str ''x %U''", THEN conjunct2,
      THEN conjunct1, THEN spec, THEN mp, OF s2]
  have a: "exec_clean (str ''zed %F'') = join (str '' '') [str ''zed'']"
    using t1 [THEN conjunct1] by (simp only: f)
  have b: "exec_clean (str ''app '' @ [34] @ str ''x %U'') =
      strip (split_first 37 (str ''app '' @ [34] @ str ''x %U'')) \<and>
      37 \<notin> set (exec_clean (str ''app '' @ [34] @ str ''x %U''))"
    by (rule t2)
  have c: "split_ws (exec_clean (str ''zed %F'')) = [str ''zed'']"
    by (simp only: a w)
  show ?thesis using a b c by blast
qed

section \<open>Properties of launch_app\<close>





section \<open>Properties of find_real_icon_path\<close>



























end
